theory Spec2Isabelle
  imports Main "HOL-Library.AList" "HOL-Library.Word"
begin

section \<open>Waku filter full node: data model\<close>

text \<open>
  The development embeds \<^verbatim>\<open>waku/v2/protocol/filter/server.go\<close>: the request handler
  (\<^verbatim>\<open>onRequest\<close>, \<^verbatim>\<open>reply\<close>, \<^verbatim>\<open>ping\<close>, \<^verbatim>\<open>subscribe\<close>, \<^verbatim>\<open>unsubscribe\<close>,
  \<^verbatim>\<open>unsubscribeAll\<close>) and the delivery path (\<^verbatim>\<open>filterListener\<close>, \<^verbatim>\<open>pushMessage\<close>).
  Logging and metrics calls never influence control flow, the registry or what is written on a
  stream; they are left out. Every other statement of the functions is a branch of the model.
\<close>

type_synonym peer_id = string
type_synonym pubsub_topic = string
type_synonym content_topic = string

text \<open>Go errors that the transport hands back (\<^verbatim>\<open>ReadMsg\<close>, \<^verbatim>\<open>NewStream\<close>, \<^verbatim>\<open>WriteMsg\<close>).\<close>

datatype go_error = DeadlineExceeded | EOF | ErrOther string

datatype FilterSubscribeType = SUBSCRIBER_PING | SUBSCRIBE | UNSUBSCRIBE | UNSUBSCRIBE_ALL

record FilterSubscribeRequest =
  RequestId :: string
  FilterSubscribeType :: FilterSubscribeType
  PubsubTopic :: pubsub_topic
  ContentTopics :: "content_topic list"

record FilterSubscribeResponse =
  resp_RequestId :: string
  StatusCode :: "32 word"
  StatusDesc :: string

record WakuMessage =
  Payload :: string
  ContentTopic :: content_topic

record Envelope =
  env_Message :: WakuMessage
  env_PubsubTopic :: pubsub_topic

record MessagePushV2 =
  push_PubsubTopic :: pubsub_topic
  push_WakuMessage :: WakuMessage

text \<open>
  An inbound stream (\<^verbatim>\<open>network.Stream\<close>): the remote peer of its connection, the frames still
  to be read (each one either decodes to a request or makes \<^verbatim>\<open>ReadMsg\<close> fail), the responses
  handed to \<^verbatim>\<open>WriteMsg\<close> so far, and whether \<^verbatim>\<open>Close\<close> has been called.
\<close>

record Stream =
  RemotePeer :: peer_id
  inbound :: "(go_error + FilterSubscribeRequest) list"
  written :: "FilterSubscribeResponse list"
  closed :: bool

definition ReadMsg :: "Stream \<Rightarrow> (go_error + FilterSubscribeRequest) \<times> Stream" where
  "ReadMsg s = (case inbound s of
                  [] \<Rightarrow> (Inl EOF, s)
                | m # ms \<Rightarrow> (m, s\<lparr>inbound := ms\<rparr>))"

definition Close :: "Stream \<Rightarrow> Stream" where
  "Close s = s\<lparr>closed := True\<rparr>"

section \<open>The subscription registry\<close>

text \<open>
  Modelled from the spec: the type \<^verbatim>\<open>SubscribersMap\<close> and its methods \<^verbatim>\<open>Has\<close>, \<^verbatim>\<open>Get\<close>,
  \<^verbatim>\<open>Set\<close>, \<^verbatim>\<open>Delete\<close>, \<^verbatim>\<open>DeleteAll\<close>, \<^verbatim>\<open>Count\<close>, \<^verbatim>\<open>Items\<close>, \<^verbatim>\<open>FlagAsSuccess\<close>
  and \<^verbatim>\<open>FlagAsFailure\<close> are used by \<^verbatim>\<open>server.go\<close> but defined in another file of the
  package. They follow section 4.1 of the specification. A map is an association list with
  distinct keys, a set of content-topics a list without repetition; list order stands for Go's
  unspecified map iteration order. The field \<open>calls\<close> records every mutating call in the
  order it was made, so that "the handler calls (does not call) \<^verbatim>\<open>Set\<close>" is a statement
  about the model.
\<close>

type_synonym ContentTopicSet = "content_topic list"
type_synonym PubsubTopics = "(pubsub_topic \<times> ContentTopicSet) list"

datatype registry_call =
    CallSet peer_id pubsub_topic "content_topic list"
  | CallDelete peer_id pubsub_topic "content_topic list"
  | CallDeleteAll peer_id
  | CallFlagAsSuccess peer_id
  | CallFlagAsFailure peer_id

datatype registry_error = NoSubscriptionError

record SubscribersMap =
  items :: "(peer_id \<times> PubsubTopics) list"
  failedPeers :: "peer_id list"
  calls :: "registry_call list"

definition NewSubscribersMap :: SubscribersMap where
  "NewSubscribersMap = \<lparr>items = [], failedPeers = [], calls = []\<rparr>"

text \<open>Modelled from the spec: \<^verbatim>\<open>Has(peer)\<close>, true iff the peer has any active subscription.\<close>

definition Has :: "SubscribersMap \<Rightarrow> peer_id \<Rightarrow> bool" where
  "Has sub peerID = (map_of (items sub) peerID \<noteq> None)"

text \<open>Modelled from the spec: \<^verbatim>\<open>Get(peer)\<close>, the peer's subscription set and whether it exists.\<close>

definition Get :: "SubscribersMap \<Rightarrow> peer_id \<Rightarrow> PubsubTopics option" where
  "Get sub peerID = map_of (items sub) peerID"

text \<open>
  Modelled from the spec: \<^verbatim>\<open>Set(peer, pubsubTopic, contentTopics)\<close>, the union-insert that
  creates the peer record if absent and enforces no cap.
\<close>

definition Set :: "SubscribersMap \<Rightarrow> peer_id \<Rightarrow> pubsub_topic \<Rightarrow> content_topic list \<Rightarrow> SubscribersMap" where
  "Set sub peerID pubsubTopic contentTopics =
     (let pubsubTopicMap = (case map_of (items sub) peerID of None \<Rightarrow> [] | Some m \<Rightarrow> m);
          contentTopicsMap = (case map_of pubsubTopicMap pubsubTopic of None \<Rightarrow> [] | Some c \<Rightarrow> c);
          contentTopicsMap' = fold List.insert contentTopics contentTopicsMap
      in sub\<lparr>items := AList.update peerID
                          (AList.update pubsubTopic contentTopicsMap' pubsubTopicMap) (items sub),
              calls := calls sub @ [CallSet peerID pubsubTopic contentTopics]\<rparr>)"

text \<open>
  Modelled from the spec: \<^verbatim>\<open>Delete(peer, pubsubTopic, contentTopics)\<close>. It fails when the peer
  or its pubsub-topic entry is absent; otherwise the given content-topics are removed, an empty
  content-topic set removes the pubsub-topic entry, and a peer left without pubsub-topics is
  removed.
\<close>

definition Delete :: "SubscribersMap \<Rightarrow> peer_id \<Rightarrow> pubsub_topic \<Rightarrow> content_topic list
    \<Rightarrow> registry_error option \<times> SubscribersMap" where
  "Delete sub peerID pubsubTopic contentTopics =
     (let sub' = sub\<lparr>calls := calls sub @ [CallDelete peerID pubsubTopic contentTopics]\<rparr>
      in case map_of (items sub) peerID of
           None \<Rightarrow> (Some NoSubscriptionError, sub')
         | Some pubsubTopicMap \<Rightarrow>
             (case map_of pubsubTopicMap pubsubTopic of
                None \<Rightarrow> (Some NoSubscriptionError, sub')
              | Some contentTopicsMap \<Rightarrow>
                  (let contentTopicsMap' = filter (\<lambda>c. c \<notin> set contentTopics) contentTopicsMap;
                       pubsubTopicMap' = (if contentTopicsMap' = []
                                          then AList.delete pubsubTopic pubsubTopicMap
                                          else AList.update pubsubTopic contentTopicsMap' pubsubTopicMap)
                   in (None, sub'\<lparr>items := (if pubsubTopicMap' = []
                                             then AList.delete peerID (items sub)
                                             else AList.update peerID pubsubTopicMap' (items sub))\<rparr>))))"

text \<open>Modelled from the spec: \<^verbatim>\<open>DeleteAll(peer)\<close>, failing when the peer has no subscription.\<close>

definition DeleteAll :: "SubscribersMap \<Rightarrow> peer_id \<Rightarrow> registry_error option \<times> SubscribersMap" where
  "DeleteAll sub peerID =
     (let sub' = sub\<lparr>calls := calls sub @ [CallDeleteAll peerID]\<rparr>
      in case map_of (items sub) peerID of
           None \<Rightarrow> (Some NoSubscriptionError, sub')
         | Some _ \<Rightarrow> (None, sub'\<lparr>items := AList.delete peerID (items sub)\<rparr>))"

text \<open>Modelled from the spec: \<^verbatim>\<open>Count()\<close>, the number of distinct peers currently subscribed.\<close>

definition Count :: "SubscribersMap \<Rightarrow> int" where
  "Count sub = int (length (items sub))"

text \<open>
  Modelled from the spec: \<^verbatim>\<open>Items(pubsubTopic, contentTopic)\<close>, every peer subscribed to that
  exact pair, as a finite snapshot.
\<close>

definition Items :: "SubscribersMap \<Rightarrow> pubsub_topic \<Rightarrow> content_topic \<Rightarrow> peer_id list" where
  "Items sub pubsubTopic contentTopic =
     map fst (filter (\<lambda>(p, pubsubTopicMap).
                        case map_of pubsubTopicMap pubsubTopic of
                          None \<Rightarrow> False
                        | Some contentTopicsMap \<Rightarrow> contentTopic \<in> set contentTopicsMap)
                     (items sub))"

text \<open>
  Modelled from the spec: \<^verbatim>\<open>FlagAsSuccess(peer)\<close> and \<^verbatim>\<open>FlagAsFailure(peer)\<close> update the peer
  health record only (success clears the failure state, failure flags it); the specification
  leaves eviction open, so neither touches the subscriptions.
\<close>

definition FlagAsSuccess :: "SubscribersMap \<Rightarrow> peer_id \<Rightarrow> SubscribersMap" where
  "FlagAsSuccess sub peerID =
     sub\<lparr>failedPeers := removeAll peerID (failedPeers sub),
         calls := calls sub @ [CallFlagAsSuccess peerID]\<rparr>"

definition FlagAsFailure :: "SubscribersMap \<Rightarrow> peer_id \<Rightarrow> SubscribersMap" where
  "FlagAsFailure sub peerID =
     sub\<lparr>failedPeers := List.insert peerID (failedPeers sub),
         calls := calls sub @ [CallFlagAsFailure peerID]\<rparr>"

section \<open>The request handler\<close>

text \<open>
  The host (\<^verbatim>\<open>host.Host\<close>) is seen through the push payloads handed to \<^verbatim>\<open>WriteMsg\<close> on
  the outbound streams it opened, each with the peer the stream leads to.

  The node. The package constants \<^verbatim>\<open>MaxContentTopicsPerRequest\<close> and
  \<^verbatim>\<open>MaxCriteriaPerSubscription\<close> are declared outside \<^verbatim>\<open>server.go\<close>; they are fields of
  the model's node, next to \<^verbatim>\<open>maxSubscriptions\<close>, so that every result holds for any value.
\<close>

record Host =
  outbound :: "(peer_id \<times> MessagePushV2) list"

record WakuFilterFullNode =
  h :: Host
  subscriptions :: SubscribersMap
  maxSubscriptions :: int
  MaxContentTopicsPerRequest :: int
  MaxCriteriaPerSubscription :: int

definition StatusOK :: int where "StatusOK = 200"
definition StatusBadRequest :: int where "StatusBadRequest = 400"
definition StatusNotFound :: int where "StatusNotFound = 404"
definition StatusServiceUnavailable :: int where "StatusServiceUnavailable = 503"

text \<open>\<^verbatim>\<open>http.StatusText\<close> on the codes the handler uses; any other code gives the empty string.\<close>

definition StatusText :: "int \<Rightarrow> string" where
  "StatusText code =
     (if code = 200 then ''OK''
      else if code = 400 then ''Bad Request''
      else if code = 404 then ''Not Found''
      else if code = 503 then ''Service Unavailable''
      else [])"

definition peerHasNoSubscription :: string where
  "peerHasNoSubscription = ''peer has no subscriptions''"

text \<open>Decimal rendering of an integer, the \<^verbatim>\<open>%d\<close> of \<^verbatim>\<open>fmt.Sprintf\<close>.\<close>

definition digit_char :: "nat \<Rightarrow> char" where
  "digit_char d = char_of (48 + d)"

function string_of_nat :: "nat \<Rightarrow> string" where
  "string_of_nat n =
     (if n < 10 then [digit_char n] else string_of_nat (n div 10) @ [digit_char (n mod 10)])"
  by pat_completeness auto
termination
  by (relation "measure id") auto

declare string_of_nat.simps [simp del]

definition Sprintf_d :: "int \<Rightarrow> string" where
  "Sprintf_d i = (if i < 0 then CHR ''-'' # string_of_nat (nat (- i)) else string_of_nat (nat i))"

text \<open>
  \<^verbatim>\<open>reply\<close>: builds the response with the request's identifier and hands it to
  \<^verbatim>\<open>WriteMsg\<close>. The variadic \<^verbatim>\<open>description\<close> is a list; a write error is only logged.
\<close>

definition reply :: "Stream \<Rightarrow> FilterSubscribeRequest \<Rightarrow> int \<Rightarrow> string list \<Rightarrow> Stream" where
  "reply s request statusCode description =
     (let response = \<lparr>resp_RequestId = RequestId request,
                      StatusCode = of_int statusCode,
                      StatusDesc = (case description of
                                      d # _ \<Rightarrow> d
                                    | [] \<Rightarrow> StatusText statusCode)\<rparr>
      in s\<lparr>written := written s @ [response]\<rparr>)"

definition ping :: "WakuFilterFullNode \<Rightarrow> Stream \<Rightarrow> FilterSubscribeRequest
    \<Rightarrow> WakuFilterFullNode \<times> Stream" where
  "ping wfn s request =
     (let exists = Has (subscriptions wfn) (RemotePeer s)
      in if exists then (wfn, reply s request StatusOK [])
         else (wfn, reply s request StatusNotFound [peerHasNoSubscription]))"

text \<open>The loop of \<^verbatim>\<open>subscribe\<close> that adds up the sizes of the peer's content-topic sets.\<close>

definition ctTotal_of :: "PubsubTopics \<Rightarrow> int" where
  "ctTotal_of totalSubs =
     fold (\<lambda>(_, contentTopicSet) ctTotal. ctTotal + int (length contentTopicSet)) totalSubs 0"

definition subscribe :: "WakuFilterFullNode \<Rightarrow> Stream \<Rightarrow> FilterSubscribeRequest
    \<Rightarrow> WakuFilterFullNode \<times> Stream" where
  "subscribe wfn s request =
     (if PubsubTopic request = [] then
        (wfn, reply s request StatusBadRequest [''pubsubtopic can't be empty''])
      else if length (ContentTopics request) = 0 then
        (wfn, reply s request StatusBadRequest [''at least one contenttopic should be specified''])
      else
        let s1 = (if int (length (ContentTopics request)) > MaxContentTopicsPerRequest wfn
                  then reply s request StatusBadRequest
                         [''exceeds maximum content topics: '' @ Sprintf_d (MaxContentTopicsPerRequest wfn)]
                  else s)
        in if Count (subscriptions wfn) \<ge> maxSubscriptions wfn then
             (wfn, reply s1 request StatusServiceUnavailable
                    [''node has reached maximum number of subscriptions''])
           else
             let peerID = RemotePeer s1;
                 accept = (wfn\<lparr>subscriptions :=
                                Set (subscriptions wfn) peerID (PubsubTopic request) (ContentTopics request)\<rparr>,
                           reply s1 request StatusOK [])
             in case Get (subscriptions wfn) peerID of
                  Some totalSubs \<Rightarrow>
                    if ctTotal_of totalSubs + int (length (ContentTopics request))
                         > MaxCriteriaPerSubscription wfn
                    then (wfn, reply s1 request StatusServiceUnavailable
                                [''peer has reached maximum number of filter criteria''])
                    else accept
                | None \<Rightarrow> accept)"

definition unsubscribe :: "WakuFilterFullNode \<Rightarrow> Stream \<Rightarrow> FilterSubscribeRequest
    \<Rightarrow> WakuFilterFullNode \<times> Stream" where
  "unsubscribe wfn s request =
     (if PubsubTopic request = [] then
        (wfn, reply s request StatusBadRequest [''pubsubtopic can't be empty''])
      else if length (ContentTopics request) = 0 then
        (wfn, reply s request StatusBadRequest [''at least one contenttopic should be specified''])
      else
        let s1 = (if int (length (ContentTopics request)) > MaxContentTopicsPerRequest wfn
                  then reply s request StatusBadRequest
                         [''exceeds maximum content topics: '' @ Sprintf_d (MaxContentTopicsPerRequest wfn)]
                  else s);
            (err, sub') = Delete (subscriptions wfn) (RemotePeer s1) (PubsubTopic request)
                            (ContentTopics request);
            wfn' = wfn\<lparr>subscriptions := sub'\<rparr>
        in if err \<noteq> None then (wfn', reply s1 request StatusNotFound [peerHasNoSubscription])
           else (wfn', reply s1 request StatusOK []))"

definition unsubscribeAll :: "WakuFilterFullNode \<Rightarrow> Stream \<Rightarrow> FilterSubscribeRequest
    \<Rightarrow> WakuFilterFullNode \<times> Stream" where
  "unsubscribeAll wfn s request =
     (let (err, sub') = DeleteAll (subscriptions wfn) (RemotePeer s);
          wfn' = wfn\<lparr>subscriptions := sub'\<rparr>
      in if err \<noteq> None then (wfn', reply s request StatusNotFound [peerHasNoSubscription])
         else (wfn', reply s request StatusOK []))"

text \<open>The \<^verbatim>\<open>switch\<close> of \<^verbatim>\<open>onRequest\<close> on the type of the decoded request.\<close>

definition dispatch :: "WakuFilterFullNode \<Rightarrow> Stream \<Rightarrow> FilterSubscribeRequest
    \<Rightarrow> WakuFilterFullNode \<times> Stream" where
  "dispatch wfn s subscribeRequest =
     (case FilterSubscribeType subscribeRequest of
        SUBSCRIBE \<Rightarrow> subscribe wfn s subscribeRequest
      | SUBSCRIBER_PING \<Rightarrow> ping wfn s subscribeRequest
      | UNSUBSCRIBE \<Rightarrow> unsubscribe wfn s subscribeRequest
      | UNSUBSCRIBE_ALL \<Rightarrow> unsubscribeAll wfn s subscribeRequest)"

text \<open>
  \<^verbatim>\<open>onRequest\<close>: one \<^verbatim>\<open>ReadMsg\<close>; on a decode error the handler returns at once; otherwise
  it dispatches on the request type. The deferred \<^verbatim>\<open>s.Close()\<close> runs on every path.
\<close>

definition onRequest :: "WakuFilterFullNode \<Rightarrow> Stream \<Rightarrow> WakuFilterFullNode \<times> Stream" where
  "onRequest wfn s =
     (let (r, s0) = ReadMsg s
      in case r of
           Inl err \<Rightarrow> (wfn, Close s0)
         | Inr subscribeRequest \<Rightarrow>
             (let (wfn', s') = dispatch wfn s0 subscribeRequest
              in (wfn', Close s')))"

section \<open>The delivery dispatcher\<close>

text \<open>
  What the transport does on one push attempt: the result of \<^verbatim>\<open>h.NewStream\<close>
  (\<open>None\<close> is an open stream) and the result of \<^verbatim>\<open>WriteMsg\<close> on that stream.
\<close>

record push_io =
  dial :: "go_error option"
  wire :: "go_error option"

definition pushMessage :: "WakuFilterFullNode \<Rightarrow> push_io \<Rightarrow> peer_id \<Rightarrow> Envelope
    \<Rightarrow> go_error option \<times> WakuFilterFullNode" where
  "pushMessage wfn io peerID env =
     (let messagePush = \<lparr>push_PubsubTopic = env_PubsubTopic env, push_WakuMessage = env_Message env\<rparr>
      in case dial io of
           Some err \<Rightarrow>
             (Some err, wfn\<lparr>subscriptions := FlagAsFailure (subscriptions wfn) peerID\<rparr>)
         | None \<Rightarrow>
             (let wfn1 = wfn\<lparr>h := (h wfn)\<lparr>outbound := outbound (h wfn) @ [(peerID, messagePush)]\<rparr>\<rparr>
              in case wire io of
                   Some err \<Rightarrow>
                     (None, wfn1\<lparr>subscriptions := FlagAsFailure (subscriptions wfn1) peerID\<rparr>)
                 | None \<Rightarrow>
                     (None, wfn1\<lparr>subscriptions := FlagAsSuccess (subscriptions wfn1) peerID\<rparr>)))"

text \<open>
  The body of the goroutine that \<^verbatim>\<open>handle\<close> starts for one subscriber: it calls
  \<^verbatim>\<open>pushMessage\<close>; on an error it logs and returns, otherwise it computes a duration. Neither
  branch changes the node.
\<close>

definition push_task :: "WakuFilterFullNode \<Rightarrow> push_io \<Rightarrow> peer_id \<Rightarrow> Envelope \<Rightarrow> WakuFilterFullNode" where
  "push_task wfn io subscriber envelope =
     (let (err, wfn') = pushMessage wfn io subscriber envelope
      in if err \<noteq> None then wfn' else wfn')"

text \<open>
  \<^verbatim>\<open>handle\<close>, the closure of \<^verbatim>\<open>filterListener\<close>: one goroutine for every peer that
  \<^verbatim>\<open>Items\<close> yields. The goroutines are run to completion in the order they are started; they
  share state only through the registry calls. \<open>net\<close> tells what the transport does for each
  subscriber.
\<close>

definition handle :: "(peer_id \<Rightarrow> push_io) \<Rightarrow> WakuFilterFullNode \<Rightarrow> Envelope \<Rightarrow> WakuFilterFullNode" where
  "handle net wfn envelope =
     (let msg = env_Message envelope;
          pubsubTopic = env_PubsubTopic envelope
      in fold (\<lambda>subscriber wfn'. push_task wfn' (net subscriber) subscriber envelope)
              (Items (subscriptions wfn) pubsubTopic (ContentTopic msg)) wfn)"

text \<open>
  \<^verbatim>\<open>filterListener\<close>: the loop over the messages of the channel \<^verbatim>\<open>wf.msgSub.Ch\<close>, here
  the list of the messages received until the channel is closed. \<open>net i\<close> is the transport's
  behaviour while the message number \<open>i\<close> is delivered.
\<close>

fun filterListener :: "(nat \<Rightarrow> peer_id \<Rightarrow> push_io) \<Rightarrow> nat \<Rightarrow> WakuFilterFullNode \<Rightarrow> Envelope list
    \<Rightarrow> WakuFilterFullNode" where
  "filterListener net i wfn [] = wfn"
| "filterListener net i wfn (m # ch) = filterListener net (Suc i) (handle (net i) wfn m) ch"

section \<open>Concrete nodes, streams and requests\<close>

text \<open>
  A node with an empty registry and the given limits, a fresh stream from a peer, and a request;
  the examples below are built from them by running the handler.
\<close>

definition example_node :: "int \<Rightarrow> int \<Rightarrow> int \<Rightarrow> WakuFilterFullNode" where
  "example_node maxSubs maxTopics maxCriteria =
     \<lparr>h = \<lparr>outbound = []\<rparr>, subscriptions = NewSubscribersMap, maxSubscriptions = maxSubs,
      MaxContentTopicsPerRequest = maxTopics, MaxCriteriaPerSubscription = maxCriteria\<rparr>"

definition example_stream :: "peer_id \<Rightarrow> (go_error + FilterSubscribeRequest) list \<Rightarrow> Stream" where
  "example_stream p frames = \<lparr>RemotePeer = p, inbound = frames, written = [], closed = False\<rparr>"

definition example_request :: "FilterSubscribeType \<Rightarrow> pubsub_topic \<Rightarrow> content_topic list
    \<Rightarrow> FilterSubscribeRequest" where
  "example_request ty topic cts =
     \<lparr>RequestId = ''req-1'', FilterSubscribeType = ty, PubsubTopic = topic, ContentTopics = cts\<rparr>"

lemmas example_defs = example_node_def example_stream_def example_request_def NewSubscribersMap_def

lemmas status_defs = StatusOK_def StatusBadRequest_def StatusNotFound_def
  StatusServiceUnavailable_def StatusText_def peerHasNoSubscription_def

text \<open>
  The node after the peer "alice" has subscribed, on a fresh stream, to the content-topics
  \<open>c1\<close> and \<open>c2\<close> of the pubsub-topic "topic".
\<close>

definition node_with_alice :: "int \<Rightarrow> int \<Rightarrow> int \<Rightarrow> WakuFilterFullNode" where
  "node_with_alice maxSubs maxTopics maxCriteria =
     fst (subscribe (example_node maxSubs maxTopics maxCriteria) (example_stream ''alice'' [])
            (example_request SUBSCRIBE ''topic'' [''c1'', ''c2'']))"

text \<open>
  For the dispatcher: the node after "bob" has subscribed to \<open>c1\<close> as well, envelopes on the
  pubsub-topic "topic", and a transport on which the stream to "alice" does not open while the
  first message is delivered and opens but cannot be written later, and on which "bob" is
  always reached.
\<close>

definition node_with_alice_and_bob :: WakuFilterFullNode where
  "node_with_alice_and_bob =
     fst (subscribe (node_with_alice 10 5 20) (example_stream ''bob'' [])
            (example_request SUBSCRIBE ''topic'' [''c1'']))"

definition example_envelope :: "content_topic \<Rightarrow> string \<Rightarrow> Envelope" where
  "example_envelope ct payload =
     \<lparr>env_Message = \<lparr>Payload = payload, ContentTopic = ct\<rparr>, env_PubsubTopic = ''topic''\<rparr>"

definition example_net :: "nat \<Rightarrow> peer_id \<Rightarrow> push_io" where
  "example_net k p =
     (if p = ''alice''
      then (if k = 0 then \<lparr>dial = Some DeadlineExceeded, wire = None\<rparr>
            else \<lparr>dial = None, wire = Some (ErrOther ''connection reset'')\<rparr>)
      else \<lparr>dial = None, wire = None\<rparr>)"

section \<open>One request per stream\<close>

lemma reply_keeps_stream:
  "inbound (reply s request code description) = inbound s \<and>
   closed (reply s request code description) = closed s \<and>
   RemotePeer (reply s request code description) = RemotePeer s"
  by (simp add: reply_def)

lemma dispatch_keeps_stream:
  "inbound (snd (dispatch wfn s request)) = inbound s \<and>
   closed (snd (dispatch wfn s request)) = closed s"
  by (simp add: dispatch_def subscribe_def ping_def unsubscribe_def unsubscribeAll_def
      reply_keeps_stream Let_def split: FilterSubscribeType.splits option.splits prod.splits)

text \<open>
  C8: \<^verbatim>\<open>onRequest\<close> reads one frame of the stream and no more, and the stream is closed when
  it returns. If that frame does not decode (or the stream is at its end), nothing is written
  and the node, with its registry and the record of registry calls, is returned as it was. If
  the frame decodes to a request, the result is the result of the handler for that request with
  the stream closed afterwards: the handler itself runs on the stream as it was left by the
  read and does not close it.
\<close>

theorem onRequest_reads_one_and_closes:
  "inbound (snd (onRequest wfn s)) = drop 1 (inbound s) \<and>
   closed (snd (onRequest wfn s)) \<and>
   (\<forall>err. fst (ReadMsg s) = Inl err \<longrightarrow>
      fst (onRequest wfn s) = wfn \<and>
      written (snd (onRequest wfn s)) = written s) \<and>
   (\<forall>request. fst (ReadMsg s) = Inr request \<longrightarrow>
      onRequest wfn s =
        (fst (dispatch wfn (snd (ReadMsg s)) request),
         (snd (dispatch wfn (snd (ReadMsg s)) request))\<lparr>closed := True\<rparr>) \<and>
      closed (snd (dispatch wfn (snd (ReadMsg s)) request)) = closed s)"
proof -
  have rd: "inbound (snd (ReadMsg s)) = drop 1 (inbound s) \<and> closed (snd (ReadMsg s)) = closed s
            \<and> written (snd (ReadMsg s)) = written s"
    by (simp add: ReadMsg_def split: list.splits)
  show ?thesis
  proof (cases "fst (ReadMsg s)")
    case (Inl err)
    then show ?thesis
      using rd by (simp add: onRequest_def Close_def case_prod_beta)
  next
    case (Inr request)
    then show ?thesis
      using rd dispatch_keeps_stream [of wfn "snd (ReadMsg s)" request]
      by (simp add: onRequest_def Close_def case_prod_beta)
  qed
qed

theorem onRequest_reads_one_and_closes_witness:
  "fst (ReadMsg (example_stream ''alice'' [Inl (ErrOther ''bad frame''),
                   Inr (example_request SUBSCRIBE ''topic'' [''c1''])]))
     = Inl (ErrOther ''bad frame'') \<and>
   onRequest (example_node 10 5 20)
     (example_stream ''alice'' [Inl (ErrOther ''bad frame''),
                   Inr (example_request SUBSCRIBE ''topic'' [''c1''])])
     = (example_node 10 5 20,
        \<lparr>RemotePeer = ''alice'', inbound = [Inr (example_request SUBSCRIBE ''topic'' [''c1''])],
         written = [], closed = True\<rparr>) \<and>
   fst (ReadMsg (example_stream ''alice'' [Inr (example_request SUBSCRIBER_PING [] [])]))
     = Inr (example_request SUBSCRIBER_PING [] []) \<and>
   snd (onRequest (example_node 10 5 20)
     (example_stream ''alice'' [Inr (example_request SUBSCRIBER_PING [] [])]))
     = \<lparr>RemotePeer = ''alice'', inbound = [],
        written = [\<lparr>resp_RequestId = ''req-1'', StatusCode = 404,
                    StatusDesc = ''peer has no subscriptions''\<rparr>],
        closed = True\<rparr>"
proof -
  have h1: "fst (ReadMsg (example_stream ''alice'' [Inl (ErrOther ''bad frame''),
                   Inr (example_request SUBSCRIBE ''topic'' [''c1''])]))
     = Inl (ErrOther ''bad frame'')"
    by (simp add: ReadMsg_def example_stream_def)
  have h2: "fst (ReadMsg (example_stream ''alice'' [Inr (example_request SUBSCRIBER_PING [] [])]))
     = Inr (example_request SUBSCRIBER_PING [] [])"
    by (simp add: ReadMsg_def example_stream_def)
  have e1: "onRequest (example_node 10 5 20)
     (example_stream ''alice'' [Inl (ErrOther ''bad frame''),
                   Inr (example_request SUBSCRIBE ''topic'' [''c1''])])
     = (example_node 10 5 20,
        \<lparr>RemotePeer = ''alice'', inbound = [Inr (example_request SUBSCRIBE ''topic'' [''c1''])],
         written = [], closed = True\<rparr>)"
    using h1 onRequest_reads_one_and_closes [of "example_node 10 5 20"
        "example_stream ''alice'' [Inl (ErrOther ''bad frame''),
                   Inr (example_request SUBSCRIBE ''topic'' [''c1''])]"]
    by (simp add: onRequest_def ReadMsg_def Close_def example_stream_def case_prod_beta)
  have e2: "snd (onRequest (example_node 10 5 20)
     (example_stream ''alice'' [Inr (example_request SUBSCRIBER_PING [] [])]))
     = \<lparr>RemotePeer = ''alice'', inbound = [],
        written = [\<lparr>resp_RequestId = ''req-1'', StatusCode = 404,
                    StatusDesc = ''peer has no subscriptions''\<rparr>],
        closed = True\<rparr>"
    using h2 onRequest_reads_one_and_closes [of "example_node 10 5 20"
        "example_stream ''alice'' [Inr (example_request SUBSCRIBER_PING [] [])]"]
    by (simp add: ReadMsg_def dispatch_def ping_def Has_def reply_def status_defs example_defs)
  from h1 h2 e1 e2 show ?thesis by simp
qed

section \<open>The size check that does not return\<close>

text \<open>
  In \<^verbatim>\<open>subscribe\<close> and \<^verbatim>\<open>unsubscribe\<close> the branch for a content-topic list longer than
  \<^verbatim>\<open>MaxContentTopicsPerRequest\<close> replies 400 and, unlike the two checks before it, has no
  \<^verbatim>\<open>return\<close>: the function goes on and replies a second time, whatever the limits are.
\<close>

lemma subscribe_oversized_two_replies:
  assumes "PubsubTopic request \<noteq> []"
    and "ContentTopics request \<noteq> []"
    and "MaxContentTopicsPerRequest wfn < int (length (ContentTopics request))"
  shows "length (written (snd (subscribe wfn s request))) = length (written s) + 2"
  using assms by (simp add: subscribe_def reply_def Let_def split: option.splits)

lemma unsubscribe_oversized_two_replies:
  assumes "PubsubTopic request \<noteq> []"
    and "ContentTopics request \<noteq> []"
    and "MaxContentTopicsPerRequest wfn < int (length (ContentTopics request))"
  shows "length (written (snd (unsubscribe wfn s request))) = length (written s) + 2"
  using assms by (simp add: unsubscribe_def reply_def Let_def case_prod_beta)

lemma Sprintf_d_2: "Sprintf_d 2 = ''2''"
  by code_simp

text \<open>
  C1 at a failing input: the node allows two content-topics per request and the stream of
  "alice" carries one request with three. For the Unsubscribe request the handler writes two
  responses before the stream is closed, 400 and then 404; for the Subscribe request it writes
  400 and then 200.
\<close>

theorem onRequest_oversized_replies_twice:
  "snd (onRequest (example_node 10 2 20)
          (example_stream ''alice'' [Inr (example_request UNSUBSCRIBE ''topic'' [''c1'', ''c2'', ''c3''])]))
     = \<lparr>RemotePeer = ''alice'', inbound = [],
        written = [\<lparr>resp_RequestId = ''req-1'', StatusCode = 400,
                    StatusDesc = ''exceeds maximum content topics: 2''\<rparr>,
                   \<lparr>resp_RequestId = ''req-1'', StatusCode = 404,
                    StatusDesc = ''peer has no subscriptions''\<rparr>],
        closed = True\<rparr> \<and>
   snd (onRequest (example_node 10 2 20)
          (example_stream ''alice'' [Inr (example_request SUBSCRIBE ''topic'' [''c1'', ''c2'', ''c3''])]))
     = \<lparr>RemotePeer = ''alice'', inbound = [],
        written = [\<lparr>resp_RequestId = ''req-1'', StatusCode = 400,
                    StatusDesc = ''exceeds maximum content topics: 2''\<rparr>,
                   \<lparr>resp_RequestId = ''req-1'', StatusCode = 200, StatusDesc = ''OK''\<rparr>],
        closed = True\<rparr>"
  by (simp add: onRequest_def ReadMsg_def Close_def dispatch_def unsubscribe_def subscribe_def
      Delete_def Count_def Get_def reply_def status_defs example_defs Sprintf_d_2 Let_def)

text \<open>
  C3 at a failing input: with \<^verbatim>\<open>MaxContentTopicsPerRequest\<close> = 2, a Subscribe request of a
  new peer with three content-topics is answered 400 and then, because the handler goes on,
  \<^verbatim>\<open>Set\<close> is called with the three content-topics and a second response, 200, is written.
  The rest of the claim holds there: the request with exactly two content-topics gets the
  single response 200.
\<close>

theorem subscribe_oversized_still_subscribes:
  "subscribe (example_node 10 2 20) (example_stream ''alice'' [])
       (example_request SUBSCRIBE ''topic'' [''c1'', ''c2'', ''c3''])
     = (\<lparr>h = \<lparr>outbound = []\<rparr>,
         subscriptions = \<lparr>items = [(''alice'', [(''topic'', [''c3'', ''c2'', ''c1''])])],
                          failedPeers = [],
                          calls = [CallSet ''alice'' ''topic'' [''c1'', ''c2'', ''c3'']]\<rparr>,
         maxSubscriptions = 10, MaxContentTopicsPerRequest = 2, MaxCriteriaPerSubscription = 20\<rparr>,
        \<lparr>RemotePeer = ''alice'', inbound = [],
         written = [\<lparr>resp_RequestId = ''req-1'', StatusCode = 400,
                     StatusDesc = ''exceeds maximum content topics: 2''\<rparr>,
                    \<lparr>resp_RequestId = ''req-1'', StatusCode = 200, StatusDesc = ''OK''\<rparr>],
         closed = False\<rparr>) \<and>
   written (snd (subscribe (example_node 10 2 20) (example_stream ''alice'' [])
       (example_request SUBSCRIBE ''topic'' [''c1'', ''c2''])))
     = [\<lparr>resp_RequestId = ''req-1'', StatusCode = 200, StatusDesc = ''OK''\<rparr>]"
  by (simp add: subscribe_def Count_def Get_def Set_def reply_def status_defs example_defs
      Sprintf_d_2 Let_def)

section \<open>Validation of a subscribe request\<close>

text \<open>
  C6: a Subscribe request with an empty pubsub-topic gets the reply 400 whatever its
  content-topics are, and so does a Subscribe request with an empty content-topic list; in both
  cases that reply is the only one written, the node is returned as it was and no call of the
  registry (in particular no \<^verbatim>\<open>Set\<close>) is recorded.
\<close>

theorem subscribe_empty_rejected:
  assumes "PubsubTopic request = [] \<or> ContentTopics request = []"
  shows "fst (subscribe wfn s request) = wfn \<and>
         snd (subscribe wfn s request) =
           s\<lparr>written := written s @
               [\<lparr>resp_RequestId = RequestId request, StatusCode = 400,
                 StatusDesc = (if PubsubTopic request = [] then ''pubsubtopic can't be empty''
                               else ''at least one contenttopic should be specified'')\<rparr>]\<rparr> \<and>
         calls (subscriptions (fst (subscribe wfn s request))) = calls (subscriptions wfn)"
  using assms by (auto simp: subscribe_def reply_def StatusBadRequest_def)

theorem subscribe_empty_rejected_witness:
  "(PubsubTopic (example_request SUBSCRIBE [] [''c1'', ''c2'']) = [] \<or>
      ContentTopics (example_request SUBSCRIBE [] [''c1'', ''c2'']) = []) \<and>
   map StatusCode (written (snd (subscribe (example_node 10 5 20) (example_stream ''alice'' [])
      (example_request SUBSCRIBE [] [''c1'', ''c2''])))) = [400] \<and>
   calls (subscriptions (fst (subscribe (example_node 10 5 20) (example_stream ''alice'' [])
      (example_request SUBSCRIBE [] [''c1'', ''c2''])))) = [] \<and>
   (PubsubTopic (example_request SUBSCRIBE ''topic'' []) = [] \<or>
      ContentTopics (example_request SUBSCRIBE ''topic'' []) = []) \<and>
   map StatusCode (written (snd (subscribe (example_node 10 5 20) (example_stream ''alice'' [])
      (example_request SUBSCRIBE ''topic'' [])))) = [400]"
proof -
  have h1: "PubsubTopic (example_request SUBSCRIBE [] [''c1'', ''c2'']) = [] \<or>
      ContentTopics (example_request SUBSCRIBE [] [''c1'', ''c2'']) = []"
    by (simp add: example_request_def)
  have h2: "PubsubTopic (example_request SUBSCRIBE ''topic'' []) = [] \<or>
      ContentTopics (example_request SUBSCRIBE ''topic'' []) = []"
    by (simp add: example_request_def)
  show ?thesis
    using h1 h2
      subscribe_empty_rejected [OF h1, of "example_node 10 5 20" "example_stream ''alice'' []"]
      subscribe_empty_rejected [OF h2, of "example_node 10 5 20" "example_stream ''alice'' []"]
    by (simp add: example_defs)
qed

section \<open>The node-wide capacity check\<close>

text \<open>
  C2, as the claim states it, fails on a concrete run: with \<^verbatim>\<open>maxSubscriptions\<close> = 1 and
  "alice" the one subscribed peer, \<^verbatim>\<open>Count()\<close> equals \<^verbatim>\<open>maxSubscriptions\<close>, and a further
  Subscribe request of "alice" herself, for one more content-topic, is answered 503 "node has
  reached maximum number of subscriptions" and leaves the registry as it was.
\<close>

theorem subscribe_capacity_counterexample:
  "Has (subscriptions (node_with_alice 1 5 20)) ''alice'' \<and>
   Count (subscriptions (node_with_alice 1 5 20)) = maxSubscriptions (node_with_alice 1 5 20) \<and>
   subscribe (node_with_alice 1 5 20) (example_stream ''alice'' [])
       (example_request SUBSCRIBE ''topic'' [''c3''])
     = (node_with_alice 1 5 20,
        \<lparr>RemotePeer = ''alice'', inbound = [],
         written = [\<lparr>resp_RequestId = ''req-1'', StatusCode = 503,
                     StatusDesc = ''node has reached maximum number of subscriptions''\<rparr>],
         closed = False\<rparr>)"
  by (simp add: node_with_alice_def example_defs subscribe_def Count_def Get_def Set_def Has_def
      reply_def status_defs Let_def)

text \<open>
  C2, amended: for a Subscribe request that passes the emptiness and size validations, the
  handler replies 503 "node has reached maximum number of subscriptions" (as its only reply,
  leaving the node as it was) exactly when \<^verbatim>\<open>Count()\<close> is at least \<^verbatim>\<open>maxSubscriptions\<close>,
  whether or not the requesting peer is already subscribed.
\<close>

theorem subscribe_capacity_reply:
  assumes "PubsubTopic request \<noteq> []"
    and "ContentTopics request \<noteq> []"
    and "int (length (ContentTopics request)) \<le> MaxContentTopicsPerRequest wfn"
  shows "subscribe wfn s request =
           (wfn, s\<lparr>written := written s @
              [\<lparr>resp_RequestId = RequestId request, StatusCode = 503,
                StatusDesc = ''node has reached maximum number of subscriptions''\<rparr>]\<rparr>)
         \<longleftrightarrow> maxSubscriptions wfn \<le> Count (subscriptions wfn)"
proof (cases "maxSubscriptions wfn \<le> Count (subscriptions wfn)")
  case True
  with assms show ?thesis
    by (simp add: subscribe_def reply_def status_defs Let_def)
next
  case False
  have diff: "written (snd (subscribe wfn s request)) \<noteq> written s @
              [\<lparr>resp_RequestId = RequestId request, StatusCode = 503,
                StatusDesc = ''node has reached maximum number of subscriptions''\<rparr>]"
    using assms False
    by (simp add: subscribe_def reply_def status_defs Let_def split: option.splits)
  have "subscribe wfn s request \<noteq>
           (wfn, s\<lparr>written := written s @
              [\<lparr>resp_RequestId = RequestId request, StatusCode = 503,
                StatusDesc = ''node has reached maximum number of subscriptions''\<rparr>]\<rparr>)"
  proof
    assume "subscribe wfn s request =
           (wfn, s\<lparr>written := written s @
              [\<lparr>resp_RequestId = RequestId request, StatusCode = 503,
                StatusDesc = ''node has reached maximum number of subscriptions''\<rparr>]\<rparr>)"
    then have "written (snd (subscribe wfn s request)) = written s @
              [\<lparr>resp_RequestId = RequestId request, StatusCode = 503,
                StatusDesc = ''node has reached maximum number of subscriptions''\<rparr>]"
      by simp
    with diff show False by contradiction
  qed
  with False show ?thesis by simp
qed

theorem subscribe_capacity_reply_witness:
  "PubsubTopic (example_request SUBSCRIBE ''topic'' [''c3'']) \<noteq> [] \<and>
   ContentTopics (example_request SUBSCRIBE ''topic'' [''c3'']) \<noteq> [] \<and>
   int (length (ContentTopics (example_request SUBSCRIBE ''topic'' [''c3''])))
     \<le> MaxContentTopicsPerRequest (node_with_alice 1 5 20) \<and>
   maxSubscriptions (node_with_alice 1 5 20) \<le> Count (subscriptions (node_with_alice 1 5 20)) \<and>
   written (snd (subscribe (node_with_alice 1 5 20) (example_stream ''bob'' [])
       (example_request SUBSCRIBE ''topic'' [''c3''])))
     = [\<lparr>resp_RequestId = ''req-1'', StatusCode = 503,
         StatusDesc = ''node has reached maximum number of subscriptions''\<rparr>]"
proof -
  have h1: "PubsubTopic (example_request SUBSCRIBE ''topic'' [''c3'']) \<noteq> []"
    by (simp add: example_request_def)
  have h2: "ContentTopics (example_request SUBSCRIBE ''topic'' [''c3'']) \<noteq> []"
    by (simp add: example_request_def)
  have h3: "int (length (ContentTopics (example_request SUBSCRIBE ''topic'' [''c3''])))
     \<le> MaxContentTopicsPerRequest (node_with_alice 1 5 20)"
    by (simp add: node_with_alice_def example_defs subscribe_def Count_def Get_def Let_def)
  have h4: "maxSubscriptions (node_with_alice 1 5 20) \<le> Count (subscriptions (node_with_alice 1 5 20))"
    by (simp add: node_with_alice_def example_defs subscribe_def Count_def Get_def Set_def Let_def)
  show ?thesis
    using h1 h2 h3 h4 subscribe_capacity_reply [OF h1 h2 h3, of "example_stream ''bob'' []"]
    by (simp add: example_stream_def example_request_def)
qed

section \<open>The per-peer criteria check\<close>

text \<open>
  C9: when the requesting peer has no entry in the registry, the per-peer criteria check is not
  made at all: a Subscribe request that passes the emptiness checks, the per-request size check
  and the node capacity check calls \<^verbatim>\<open>Set\<close> and is answered 200, whatever the value of
  \<^verbatim>\<open>MaxCriteriaPerSubscription\<close> is, hence also when the request alone has more content-topics
  than that cap.
\<close>

theorem subscribe_new_peer_skips_criteria_cap:
  assumes "Get (subscriptions wfn) (RemotePeer s) = None"
    and "PubsubTopic request \<noteq> []"
    and "ContentTopics request \<noteq> []"
    and "int (length (ContentTopics request)) \<le> MaxContentTopicsPerRequest wfn"
    and "Count (subscriptions wfn) < maxSubscriptions wfn"
  shows "subscribe wfn s request =
           (wfn\<lparr>subscriptions := Set (subscriptions wfn) (RemotePeer s) (PubsubTopic request)
                                     (ContentTopics request)\<rparr>,
            s\<lparr>written := written s @
                [\<lparr>resp_RequestId = RequestId request, StatusCode = 200, StatusDesc = ''OK''\<rparr>]\<rparr>)"
  using assms by (simp add: subscribe_def reply_def StatusOK_def StatusText_def Let_def)

theorem subscribe_new_peer_skips_criteria_cap_witness:
  "Get (subscriptions (example_node 10 5 2)) (RemotePeer (example_stream ''alice'' [])) = None \<and>
   int (length (ContentTopics (example_request SUBSCRIBE ''topic'' [''c1'', ''c2'', ''c3''])))
     > MaxCriteriaPerSubscription (example_node 10 5 2) \<and>
   items (subscriptions (fst (subscribe (example_node 10 5 2) (example_stream ''alice'' [])
      (example_request SUBSCRIBE ''topic'' [''c1'', ''c2'', ''c3''])))) =
     [(''alice'', [(''topic'', [''c3'', ''c2'', ''c1''])])] \<and>
   calls (subscriptions (fst (subscribe (example_node 10 5 2) (example_stream ''alice'' [])
      (example_request SUBSCRIBE ''topic'' [''c1'', ''c2'', ''c3''])))) =
     [CallSet ''alice'' ''topic'' [''c1'', ''c2'', ''c3'']] \<and>
   map StatusCode (written (snd (subscribe (example_node 10 5 2) (example_stream ''alice'' [])
      (example_request SUBSCRIBE ''topic'' [''c1'', ''c2'', ''c3''])))) = [200]"
proof -
  have h1: "Get (subscriptions (example_node 10 5 2)) (RemotePeer (example_stream ''alice'' [])) = None"
    by (simp add: example_defs Get_def)
  have h2: "PubsubTopic (example_request SUBSCRIBE ''topic'' [''c1'', ''c2'', ''c3'']) \<noteq> []"
    by (simp add: example_defs)
  have h3: "ContentTopics (example_request SUBSCRIBE ''topic'' [''c1'', ''c2'', ''c3'']) \<noteq> []"
    by (simp add: example_defs)
  have h4: "int (length (ContentTopics (example_request SUBSCRIBE ''topic'' [''c1'', ''c2'', ''c3''])))
              \<le> MaxContentTopicsPerRequest (example_node 10 5 2)"
    by (simp add: example_defs)
  have h5: "Count (subscriptions (example_node 10 5 2)) < maxSubscriptions (example_node 10 5 2)"
    by (simp add: example_defs Count_def)
  show ?thesis
    using h1 subscribe_new_peer_skips_criteria_cap [OF h1 h2 h3 h4 h5]
    by (simp add: example_defs Set_def)
qed

section \<open>Subscribing twice\<close>

lemma fold_insert_absorb: "set cs \<subseteq> set xs \<Longrightarrow> fold List.insert cs xs = xs"
  by (induction cs arbitrary: xs) simp_all

lemma set_fold_insert: "set (fold List.insert cs xs) = set cs \<union> set xs"
  by (induction cs arbitrary: xs) auto

lemma distinct_fold_insert: "distinct xs \<Longrightarrow> distinct (fold List.insert cs xs)"
  by (induction cs arbitrary: xs) simp_all

lemma Set_items_idem:
  "items (Set (Set sub peerID pubsubTopic contentTopics) peerID pubsubTopic contentTopics)
     = items (Set sub peerID pubsubTopic contentTopics)"
  by (simp add: Set_def Let_def update_conv' fold_insert_absorb set_fold_insert)

lemma subscribe_node_cases:
  "fst (subscribe wfn s request) = wfn \<or>
   fst (subscribe wfn s request) =
     wfn\<lparr>subscriptions := Set (subscriptions wfn) (RemotePeer s) (PubsubTopic request)
                               (ContentTopics request)\<rparr>"
  by (simp add: subscribe_def reply_keeps_stream Let_def split: option.splits)

lemma subscribe_node_peer:
  "RemotePeer s' = RemotePeer s \<Longrightarrow> fst (subscribe wfn s' request) = fst (subscribe wfn s request)"
  by (simp add: subscribe_def reply_keeps_stream Let_def split: option.splits)

lemma subscribe_twice_items:
  assumes "RemotePeer s' = RemotePeer s"
  shows "items (subscriptions (fst (subscribe (fst (subscribe wfn s request)) s' request)))
           = items (subscriptions (fst (subscribe wfn s request)))"
proof -
  let ?w1 = "fst (subscribe wfn s request)"
  consider (rejected) "?w1 = wfn"
    | (accepted) "?w1 = wfn\<lparr>subscriptions := Set (subscriptions wfn) (RemotePeer s)
                                   (PubsubTopic request) (ContentTopics request)\<rparr>"
    using subscribe_node_cases by blast
  then show ?thesis
  proof cases
    case rejected
    then show ?thesis using subscribe_node_peer [OF assms, of wfn request] by simp
  next
    case accepted
    from subscribe_node_cases [of ?w1 s' request]
    show ?thesis
    proof
      assume "fst (subscribe ?w1 s' request) = ?w1"
      then show ?thesis by simp
    next
      assume "fst (subscribe ?w1 s' request) =
                ?w1\<lparr>subscriptions := Set (subscriptions ?w1) (RemotePeer s')
                                        (PubsubTopic request) (ContentTopics request)\<rparr>"
      then show ?thesis
        using accepted assms Set_items_idem by simp
    qed
  qed
qed

lemma subscribe_criteria_reply:
  assumes "PubsubTopic request \<noteq> []"
    and "ContentTopics request \<noteq> []"
    and "Count (subscriptions wfn) < maxSubscriptions wfn"
    and "Get (subscriptions wfn) (RemotePeer s) = Some totalSubs"
  shows "last (written (snd (subscribe wfn s request))) =
           \<lparr>resp_RequestId = RequestId request, StatusCode = 503,
            StatusDesc = ''peer has reached maximum number of filter criteria''\<rparr>
         \<longleftrightarrow> MaxCriteriaPerSubscription wfn
               < ctTotal_of totalSubs + int (length (ContentTopics request))"
  using assms by (simp add: subscribe_def reply_def reply_keeps_stream status_defs Let_def)

text \<open>
  C4, as the claim states it, fails on a concrete run: with \<^verbatim>\<open>MaxCriteriaPerSubscription\<close>
  = 3, the new peer "alice" subscribes to the content-topics \<open>c1\<close> and \<open>c2\<close> and is answered
  200; she then holds two content-topics. The same request again is answered 503 "peer has
  reached maximum number of filter criteria", although her distinct content-topics are still
  the same two: the check adds the request's two content-topics to the two she holds.
\<close>

theorem subscribe_twice_counterexample:
  "written (snd (subscribe (example_node 10 5 3) (example_stream ''alice'' [])
       (example_request SUBSCRIBE ''topic'' [''c1'', ''c2''])))
     = [\<lparr>resp_RequestId = ''req-1'', StatusCode = 200, StatusDesc = ''OK''\<rparr>] \<and>
   Get (subscriptions (node_with_alice 10 5 3)) ''alice'' = Some [(''topic'', [''c2'', ''c1''])] \<and>
   MaxCriteriaPerSubscription (node_with_alice 10 5 3) = 3 \<and>
   subscribe (node_with_alice 10 5 3) (example_stream ''alice'' [])
       (example_request SUBSCRIBE ''topic'' [''c1'', ''c2''])
     = (node_with_alice 10 5 3,
        \<lparr>RemotePeer = ''alice'', inbound = [],
         written = [\<lparr>resp_RequestId = ''req-1'', StatusCode = 503,
                     StatusDesc = ''peer has reached maximum number of filter criteria''\<rparr>],
         closed = False\<rparr>)"
  by (simp add: node_with_alice_def example_defs subscribe_def Count_def Get_def Set_def
      ctTotal_of_def reply_def status_defs Let_def)

text \<open>
  C4, amended: handling the same Subscribe request twice leaves the subscriptions of the
  registry as handling it once does. The per-peer check does not look at which content-topics
  the peer already holds: when the second request reaches that check, it is rejected with 503
  "peer has reached maximum number of filter criteria" exactly when the content-topic total the
  peer holds after the first request plus the number of content-topics of the request exceeds
  \<^verbatim>\<open>MaxCriteriaPerSubscription\<close>, so that repeated content-topics count again.
\<close>

theorem subscribe_twice_same_state:
  assumes "RemotePeer s' = RemotePeer s"
  shows "items (subscriptions (fst (subscribe (fst (subscribe wfn s request)) s' request)))
           = items (subscriptions (fst (subscribe wfn s request))) \<and>
         (\<forall>totalSubs.
            PubsubTopic request \<noteq> [] \<and> ContentTopics request \<noteq> [] \<and>
            Count (subscriptions (fst (subscribe wfn s request)))
              < maxSubscriptions (fst (subscribe wfn s request)) \<and>
            Get (subscriptions (fst (subscribe wfn s request))) (RemotePeer s') = Some totalSubs
            \<longrightarrow>
            (last (written (snd (subscribe (fst (subscribe wfn s request)) s' request))) =
               \<lparr>resp_RequestId = RequestId request, StatusCode = 503,
                StatusDesc = ''peer has reached maximum number of filter criteria''\<rparr>
             \<longleftrightarrow> MaxCriteriaPerSubscription (fst (subscribe wfn s request))
                   < ctTotal_of totalSubs + int (length (ContentTopics request))))"
  using subscribe_twice_items [OF assms] subscribe_criteria_reply by blast

theorem subscribe_twice_same_state_witness:
  "RemotePeer (example_stream ''alice'' []) = RemotePeer (example_stream ''alice'' []) \<and>
   items (subscriptions (fst (subscribe (node_with_alice 10 5 3) (example_stream ''alice'' [])
       (example_request SUBSCRIBE ''topic'' [''c1'', ''c2'']))))
     = [(''alice'', [(''topic'', [''c2'', ''c1''])])] \<and>
   Get (subscriptions (node_with_alice 10 5 3)) (RemotePeer (example_stream ''alice'' []))
     = Some [(''topic'', [''c2'', ''c1''])] \<and>
   MaxCriteriaPerSubscription (node_with_alice 10 5 3)
     < ctTotal_of [(''topic'', [''c2'', ''c1''])]
       + int (length (ContentTopics (example_request SUBSCRIBE ''topic'' [''c1'', ''c2'']))) \<and>
   last (written (snd (subscribe (node_with_alice 10 5 3) (example_stream ''alice'' [])
       (example_request SUBSCRIBE ''topic'' [''c1'', ''c2'']))))
     = \<lparr>resp_RequestId = ''req-1'', StatusCode = 503,
        StatusDesc = ''peer has reached maximum number of filter criteria''\<rparr>"
proof -
  have h: "RemotePeer (example_stream ''alice'' []) = RemotePeer (example_stream ''alice'' [])"
    by simp
  have n: "node_with_alice 10 5 3 =
      \<lparr>h = \<lparr>outbound = []\<rparr>,
       subscriptions = \<lparr>items = [(''alice'', [(''topic'', [''c2'', ''c1''])])], failedPeers = [],
                        calls = [CallSet ''alice'' ''topic'' [''c1'', ''c2'']]\<rparr>,
       maxSubscriptions = 10, MaxContentTopicsPerRequest = 5, MaxCriteriaPerSubscription = 3\<rparr>"
    by (simp add: node_with_alice_def example_defs subscribe_def Count_def Get_def Set_def Let_def)
  have g: "Get (subscriptions (node_with_alice 10 5 3)) (RemotePeer (example_stream ''alice'' []))
     = Some [(''topic'', [''c2'', ''c1''])]"
    by (simp add: n Get_def example_stream_def)
  have c: "Count (subscriptions (node_with_alice 10 5 3)) < maxSubscriptions (node_with_alice 10 5 3)"
    by (simp add: n Count_def)
  have t: "MaxCriteriaPerSubscription (node_with_alice 10 5 3)
     < ctTotal_of [(''topic'', [''c2'', ''c1''])]
       + int (length (ContentTopics (example_request SUBSCRIBE ''topic'' [''c1'', ''c2''])))"
    by (simp add: n ctTotal_of_def example_request_def)
  have r: "PubsubTopic (example_request SUBSCRIBE ''topic'' [''c1'', ''c2'']) \<noteq> [] \<and>
           ContentTopics (example_request SUBSCRIBE ''topic'' [''c1'', ''c2'']) \<noteq> []"
    by (simp add: example_request_def)
  have w: "fst (subscribe (example_node 10 5 3) (example_stream ''alice'' [])
             (example_request SUBSCRIBE ''topic'' [''c1'', ''c2''])) = node_with_alice 10 5 3"
    by (simp add: node_with_alice_def)
  from subscribe_twice_same_state [OF h, of "example_node 10 5 3"
         "example_request SUBSCRIBE ''topic'' [''c1'', ''c2'']"]
  have i: "items (subscriptions (fst (subscribe (node_with_alice 10 5 3) (example_stream ''alice'' [])
       (example_request SUBSCRIBE ''topic'' [''c1'', ''c2'']))))
     = items (subscriptions (node_with_alice 10 5 3))"
    and l: "last (written (snd (subscribe (node_with_alice 10 5 3) (example_stream ''alice'' [])
       (example_request SUBSCRIBE ''topic'' [''c1'', ''c2'']))))
     = \<lparr>resp_RequestId = RequestId (example_request SUBSCRIBE ''topic'' [''c1'', ''c2'']),
        StatusCode = 503,
        StatusDesc = ''peer has reached maximum number of filter criteria''\<rparr>"
    using g c t r unfolding w by blast+
  from h g t i l show ?thesis by (simp add: n example_request_def)
qed

section \<open>Ping and the absence replies\<close>

lemma not_Has_after_unsubscribeAll:
  "\<not> Has (subscriptions (fst (unsubscribeAll wfn s request))) (RemotePeer s)"
  by (simp add: unsubscribeAll_def DeleteAll_def Has_def Let_def delete_conv'
      split: option.splits prod.splits)

text \<open>
  C5: a Ping is answered 200 when \<^verbatim>\<open>Has\<close> holds for the peer of the stream and 404 with the
  description "peer has no subscriptions" otherwise, and only that reply is written. After a
  Subscribe followed by an UnsubscribeAll of the same peer, the peer is no longer in the
  registry: a Ping is answered 404, and so is a second UnsubscribeAll.
\<close>

theorem ping_reflects_registry:
  assumes "RemotePeer s2 = RemotePeer s1"
    and "RemotePeer s3 = RemotePeer s1"
    and "RemotePeer s4 = RemotePeer s1"
  shows "ping wfn s1 request =
           (wfn, s1\<lparr>written := written s1 @
              [if Has (subscriptions wfn) (RemotePeer s1)
               then \<lparr>resp_RequestId = RequestId request, StatusCode = 200, StatusDesc = ''OK''\<rparr>
               else \<lparr>resp_RequestId = RequestId request, StatusCode = 404,
                     StatusDesc = ''peer has no subscriptions''\<rparr>]\<rparr>) \<and>
         snd (ping (fst (unsubscribeAll (fst (subscribe wfn s1 r1)) s2 r2)) s3 r3) =
           s3\<lparr>written := written s3 @
              [\<lparr>resp_RequestId = RequestId r3, StatusCode = 404,
                StatusDesc = ''peer has no subscriptions''\<rparr>]\<rparr> \<and>
         snd (unsubscribeAll (fst (unsubscribeAll (fst (subscribe wfn s1 r1)) s2 r2)) s4 r4) =
           s4\<lparr>written := written s4 @
              [\<lparr>resp_RequestId = RequestId r4, StatusCode = 404,
                StatusDesc = ''peer has no subscriptions''\<rparr>]\<rparr>"
proof -
  let ?w = "fst (unsubscribeAll (fst (subscribe wfn s1 r1)) s2 r2)"
  have gone: "\<not> Has (subscriptions ?w) (RemotePeer s1)"
    using not_Has_after_unsubscribeAll [of "fst (subscribe wfn s1 r1)" s2 r2] assms(1) by simp
  have p: "ping wfn s1 request =
           (wfn, s1\<lparr>written := written s1 @
              [if Has (subscriptions wfn) (RemotePeer s1)
               then \<lparr>resp_RequestId = RequestId request, StatusCode = 200, StatusDesc = ''OK''\<rparr>
               else \<lparr>resp_RequestId = RequestId request, StatusCode = 404,
                     StatusDesc = ''peer has no subscriptions''\<rparr>]\<rparr>)"
    by (simp add: ping_def reply_def status_defs Let_def)
  have q: "snd (ping ?w s3 r3) =
           s3\<lparr>written := written s3 @
              [\<lparr>resp_RequestId = RequestId r3, StatusCode = 404,
                StatusDesc = ''peer has no subscriptions''\<rparr>]\<rparr>"
    using gone assms(2) by (simp add: ping_def reply_def status_defs Let_def)
  have r: "snd (unsubscribeAll ?w s4 r4) =
           s4\<lparr>written := written s4 @
              [\<lparr>resp_RequestId = RequestId r4, StatusCode = 404,
                StatusDesc = ''peer has no subscriptions''\<rparr>]\<rparr>"
    using gone assms(3)
    by (simp add: unsubscribeAll_def DeleteAll_def Has_def reply_def status_defs Let_def
        split: option.splits)
  from p q r show ?thesis by simp
qed

theorem ping_reflects_registry_witness:
  "Has (subscriptions (node_with_alice 10 5 20)) ''alice'' \<and>
   map StatusCode (written (snd (ping (node_with_alice 10 5 20) (example_stream ''alice'' [])
      (example_request SUBSCRIBER_PING [] [])))) = [200] \<and>
   map StatusCode (written (snd (ping (node_with_alice 10 5 20) (example_stream ''bob'' [])
      (example_request SUBSCRIBER_PING [] [])))) = [404] \<and>
   map StatusCode (written (snd (unsubscribeAll (node_with_alice 10 5 20) (example_stream ''alice'' [])
      (example_request UNSUBSCRIBE_ALL [] [])))) = [200] \<and>
   map StatusCode (written (snd (ping
      (fst (unsubscribeAll
         (fst (subscribe (example_node 10 5 20) (example_stream ''alice'' [])
                (example_request SUBSCRIBE ''topic'' [''c1'', ''c2''])))
         (example_stream ''alice'' []) (example_request UNSUBSCRIBE_ALL [] [])))
      (example_stream ''alice'' []) (example_request SUBSCRIBER_PING [] [])))) = [404] \<and>
   map StatusCode (written (snd (unsubscribeAll
      (fst (unsubscribeAll
         (fst (subscribe (example_node 10 5 20) (example_stream ''alice'' [])
                (example_request SUBSCRIBE ''topic'' [''c1'', ''c2''])))
         (example_stream ''alice'' []) (example_request UNSUBSCRIBE_ALL [] [])))
      (example_stream ''alice'' []) (example_request UNSUBSCRIBE_ALL [] [])))) = [404]"
proof -
  have h: "RemotePeer (example_stream ''alice'' []) = RemotePeer (example_stream ''alice'' [])"
    by simp
  have a: "Has (subscriptions (node_with_alice 10 5 20)) ''alice''"
    by (simp add: node_with_alice_def example_defs subscribe_def Count_def Get_def Set_def Has_def
        reply_def Let_def)
  have b: "\<not> Has (subscriptions (node_with_alice 10 5 20)) ''bob''"
    by (simp add: node_with_alice_def example_defs subscribe_def Count_def Get_def Set_def Has_def
        reply_def Let_def)
  have c: "map StatusCode (written (snd (unsubscribeAll (node_with_alice 10 5 20)
      (example_stream ''alice'' []) (example_request UNSUBSCRIBE_ALL [] [])))) = [200]"
    using a by (auto simp: unsubscribeAll_def DeleteAll_def Has_def reply_def status_defs Let_def
        example_stream_def split: option.splits)
  show ?thesis
    using a b c
      ping_reflects_registry [OF h h h, of "node_with_alice 10 5 20"
        "example_request SUBSCRIBER_PING [] []"]
      ping_reflects_registry [of "example_stream ''bob'' []" "example_stream ''bob'' []"
        "example_stream ''bob'' []" "example_stream ''bob'' []" "node_with_alice 10 5 20"
        "example_request SUBSCRIBER_PING [] []"]
      ping_reflects_registry [OF h h h, of "example_node 10 5 20"
        "example_request SUBSCRIBER_PING [] []"
        "example_request SUBSCRIBE ''topic'' [''c1'', ''c2'']"
        "example_request UNSUBSCRIBE_ALL [] []"
        "example_request SUBSCRIBER_PING [] []"
        "example_request UNSUBSCRIBE_ALL [] []"]
    by (simp add: example_stream_def)
qed

section \<open>Pushing a message to a subscriber\<close>

text \<open>
  C10: \<^verbatim>\<open>pushMessage\<close> returns an error exactly when opening the outbound stream fails. When
  the stream opens and writing the payload fails, the peer is flagged as failure and the
  function returns nil, the same value it returns after a successful write, so the calling
  goroutine cannot tell the two apart.
\<close>

theorem pushMessage_error_only_on_dial:
  "(fst (pushMessage wfn io peerID env) \<noteq> None \<longleftrightarrow> dial io \<noteq> None) \<and>
   (dial io = None \<and> wire io \<noteq> None \<longrightarrow>
      fst (pushMessage wfn io peerID env) = None \<and>
      subscriptions (snd (pushMessage wfn io peerID env)) = FlagAsFailure (subscriptions wfn) peerID \<and>
      fst (pushMessage wfn io peerID env) = fst (pushMessage wfn (io\<lparr>wire := None\<rparr>) peerID env) \<and>
      push_task wfn io peerID env = snd (pushMessage wfn io peerID env))"
  by (auto simp: pushMessage_def push_task_def Let_def split: option.splits)

theorem pushMessage_error_only_on_dial_witness:
  "dial \<lparr>dial = None, wire = Some (ErrOther ''broken pipe'')\<rparr> = None \<and>
   wire \<lparr>dial = None, wire = Some (ErrOther ''broken pipe'')\<rparr> \<noteq> None \<and>
   fst (pushMessage (example_node 10 5 20) \<lparr>dial = None, wire = Some (ErrOther ''broken pipe'')\<rparr>
          ''alice'' \<lparr>env_Message = \<lparr>Payload = ''hello'', ContentTopic = ''c1''\<rparr>, env_PubsubTopic = ''topic''\<rparr>) = None \<and>
   calls (subscriptions (snd (pushMessage (example_node 10 5 20)
          \<lparr>dial = None, wire = Some (ErrOther ''broken pipe'')\<rparr>
          ''alice'' \<lparr>env_Message = \<lparr>Payload = ''hello'', ContentTopic = ''c1''\<rparr>, env_PubsubTopic = ''topic''\<rparr>)))
     = [CallFlagAsFailure ''alice'']"
  using pushMessage_error_only_on_dial [of "example_node 10 5 20"
          "\<lparr>dial = None, wire = Some (ErrOther ''broken pipe'')\<rparr>" "''alice''"
          "\<lparr>env_Message = \<lparr>Payload = ''hello'', ContentTopic = ''c1''\<rparr>, env_PubsubTopic = ''topic''\<rparr>"]
  by (simp add: example_defs FlagAsFailure_def)

section \<open>Fan-out of the dispatcher\<close>

lemma pushMessage_effect:
  "calls (subscriptions (snd (pushMessage wfn io peerID env))) =
     calls (subscriptions wfn) @
       [if dial io = None \<and> wire io = None then CallFlagAsSuccess peerID
        else CallFlagAsFailure peerID] \<and>
   outbound (h (snd (pushMessage wfn io peerID env))) =
     outbound (h wfn) @
       (if dial io = None
        then [(peerID, \<lparr>push_PubsubTopic = env_PubsubTopic env, push_WakuMessage = env_Message env\<rparr>)]
        else []) \<and>
   items (subscriptions (snd (pushMessage wfn io peerID env))) = items (subscriptions wfn)"
  by (simp add: pushMessage_def FlagAsFailure_def FlagAsSuccess_def Let_def split: option.splits)

lemma push_task_effect:
  "calls (subscriptions (push_task wfn io peerID env)) =
     calls (subscriptions wfn) @
       [if dial io = None \<and> wire io = None then CallFlagAsSuccess peerID
        else CallFlagAsFailure peerID] \<and>
   outbound (h (push_task wfn io peerID env)) =
     outbound (h wfn) @
       (if dial io = None
        then [(peerID, \<lparr>push_PubsubTopic = env_PubsubTopic env, push_WakuMessage = env_Message env\<rparr>)]
        else []) \<and>
   items (subscriptions (push_task wfn io peerID env)) = items (subscriptions wfn)"
  using pushMessage_effect [of wfn io peerID env]
  by (simp add: push_task_def case_prod_beta)

lemma fold_push_task_effect:
  "calls (subscriptions (fold (\<lambda>p w. push_task w (net p) p env) ps wfn)) =
     calls (subscriptions wfn) @
       map (\<lambda>p. if dial (net p) = None \<and> wire (net p) = None then CallFlagAsSuccess p
                 else CallFlagAsFailure p) ps \<and>
   outbound (h (fold (\<lambda>p w. push_task w (net p) p env) ps wfn)) =
     outbound (h wfn) @
       map (\<lambda>p. (p, \<lparr>push_PubsubTopic = env_PubsubTopic env, push_WakuMessage = env_Message env\<rparr>))
           (filter (\<lambda>p. dial (net p) = None) ps) \<and>
   items (subscriptions (fold (\<lambda>p w. push_task w (net p) p env) ps wfn)) = items (subscriptions wfn)"
proof (induction ps arbitrary: wfn)
  case Nil
  show ?case by simp
next
  case (Cons p ps)
  show ?case
    using Cons.IH [of "push_task wfn (net p) p env"] push_task_effect [of wfn "net p" p env]
    by simp
qed

lemma handle_effect:
  "calls (subscriptions (handle net wfn env)) =
     calls (subscriptions wfn) @
       map (\<lambda>p. if dial (net p) = None \<and> wire (net p) = None then CallFlagAsSuccess p
                 else CallFlagAsFailure p)
           (Items (subscriptions wfn) (env_PubsubTopic env) (ContentTopic (env_Message env))) \<and>
   outbound (h (handle net wfn env)) =
     outbound (h wfn) @
       map (\<lambda>p. (p, \<lparr>push_PubsubTopic = env_PubsubTopic env, push_WakuMessage = env_Message env\<rparr>))
           (filter (\<lambda>p. dial (net p) = None)
              (Items (subscriptions wfn) (env_PubsubTopic env) (ContentTopic (env_Message env)))) \<and>
   items (subscriptions (handle net wfn env)) = items (subscriptions wfn)"
  using fold_push_task_effect [of net env
      "Items (subscriptions wfn) (env_PubsubTopic env) (ContentTopic (env_Message env))" wfn]
  by (simp add: handle_def Let_def)

lemma Items_items: "items sub' = items sub \<Longrightarrow> Items sub' = Items sub"
  by (simp add: Items_def fun_eq_iff)

text \<open>
  C7: the dispatcher makes one push attempt for every message of the channel and every
  subscriber that \<^verbatim>\<open>Items\<close> yields for it, whatever the outcome of the other attempts is: an
  attempt whose stream opens and whose write succeeds calls \<^verbatim>\<open>FlagAsSuccess\<close> for its peer,
  every other attempt (dial failure, timeout, write failure) calls \<^verbatim>\<open>FlagAsFailure\<close> for its
  peer, and these are all the registry calls of the dispatcher. What it writes to peers are the
  push payloads of the messages, one on each stream that opened, and never an error. The
  subscriptions are left as they were.
\<close>

theorem filterListener_fan_out:
  "calls (subscriptions (filterListener net i wfn ch)) =
     calls (subscriptions wfn) @
       concat (map (\<lambda>(k, m).
                 map (\<lambda>p. if dial (net k p) = None \<and> wire (net k p) = None
                           then CallFlagAsSuccess p else CallFlagAsFailure p)
                     (Items (subscriptions wfn) (env_PubsubTopic m) (ContentTopic (env_Message m))))
               (enumerate i ch)) \<and>
   outbound (h (filterListener net i wfn ch)) =
     outbound (h wfn) @
       concat (map (\<lambda>(k, m).
                 map (\<lambda>p. (p, \<lparr>push_PubsubTopic = env_PubsubTopic m, push_WakuMessage = env_Message m\<rparr>))
                     (filter (\<lambda>p. dial (net k p) = None)
                        (Items (subscriptions wfn) (env_PubsubTopic m) (ContentTopic (env_Message m)))))
               (enumerate i ch)) \<and>
   items (subscriptions (filterListener net i wfn ch)) = items (subscriptions wfn)"
proof (induction ch arbitrary: i wfn)
  case Nil
  show ?case by simp
next
  case (Cons m ch)
  have it: "Items (subscriptions (handle (net i) wfn m)) = Items (subscriptions wfn)"
    by (rule Items_items) (simp add: handle_effect)
  show ?case
    using Cons.IH [of "Suc i" "handle (net i) wfn m"] handle_effect [of "net i" wfn m]
    by (simp add: it)
qed

theorem filterListener_fan_out_witness:
  "Items (subscriptions node_with_alice_and_bob) ''topic'' ''c1'' = [''alice'', ''bob''] \<and>
   calls (subscriptions (filterListener example_net 0 node_with_alice_and_bob
            [example_envelope ''c1'' ''first'', example_envelope ''c9'' ''second'',
             example_envelope ''c1'' ''third'']))
     = [CallSet ''alice'' ''topic'' [''c1'', ''c2''], CallSet ''bob'' ''topic'' [''c1''],
        CallFlagAsFailure ''alice'', CallFlagAsSuccess ''bob'',
        CallFlagAsFailure ''alice'', CallFlagAsSuccess ''bob''] \<and>
   outbound (h (filterListener example_net 0 node_with_alice_and_bob
            [example_envelope ''c1'' ''first'', example_envelope ''c9'' ''second'',
             example_envelope ''c1'' ''third'']))
     = [(''bob'', \<lparr>push_PubsubTopic = ''topic'',
                  push_WakuMessage = \<lparr>Payload = ''first'', ContentTopic = ''c1''\<rparr>\<rparr>),
        (''alice'', \<lparr>push_PubsubTopic = ''topic'',
                    push_WakuMessage = \<lparr>Payload = ''third'', ContentTopic = ''c1''\<rparr>\<rparr>),
        (''bob'', \<lparr>push_PubsubTopic = ''topic'',
                  push_WakuMessage = \<lparr>Payload = ''third'', ContentTopic = ''c1''\<rparr>\<rparr>)]"
proof -
  have n: "node_with_alice_and_bob =
      \<lparr>h = \<lparr>outbound = []\<rparr>,
       subscriptions = \<lparr>items = [(''alice'', [(''topic'', [''c2'', ''c1''])]),
                                 (''bob'', [(''topic'', [''c1''])])],
                        failedPeers = [],
                        calls = [CallSet ''alice'' ''topic'' [''c1'', ''c2''],
                                 CallSet ''bob'' ''topic'' [''c1'']]\<rparr>,
       maxSubscriptions = 10, MaxContentTopicsPerRequest = 5, MaxCriteriaPerSubscription = 20\<rparr>"
    by (simp add: node_with_alice_and_bob_def node_with_alice_def example_defs subscribe_def
        Count_def Get_def Set_def reply_def Let_def)
  have i1: "Items (subscriptions node_with_alice_and_bob) ''topic'' ''c1'' = [''alice'', ''bob'']"
    by (simp add: n Items_def)
  have i9: "Items (subscriptions node_with_alice_and_bob) ''topic'' ''c9'' = []"
    by (simp add: n Items_def)
  show ?thesis
    using i1 filterListener_fan_out [of example_net 0 node_with_alice_and_bob
        "[example_envelope ''c1'' ''first'', example_envelope ''c9'' ''second'',
          example_envelope ''c1'' ''third'']"]
    by (simp add: i9 example_envelope_def example_net_def) (simp add: n)
qed

end
